theory Spec2Isabelle
  imports Main
begin

section \<open>JavaScript values handled by FrappeDeskTheme\<close>

text \<open>
  The theme configuration, the HTTP payload and the cached entry are all produced by
  \<^verbatim>\<open>JSON.parse\<close>, so the values the class handles are JSON values. A property read that
  finds nothing yields \<^verbatim>\<open>undefined\<close>, modelled as \<open>None\<close> of \<open>json option\<close>.
  Numbers are the integer-valued ones (the flags 0 and 1 of the configuration, epoch
  milliseconds); an object is the list of its own properties, keys distinct.
\<close>

datatype json =
    JNull
  | JBool bool
  | JNum int
  | JStr string
  | JArr "json list"
  | JObj "(string \<times> json) list"

text \<open>
  \<^verbatim>\<open>v.k\<close> on a value that is neither null nor undefined, for the property names this
  program reads (none of them is inherited from a prototype): an object gives its own
  property, everything else gives undefined.
\<close>

fun fld :: "json \<Rightarrow> string \<Rightarrow> json option" where
  "fld (JObj kvs) k = map_of kvs k"
| "fld _ k = None"

text \<open>JavaScript truthiness (ToBoolean).\<close>

fun truthy :: "json option \<Rightarrow> bool" where
  "truthy None = False"
| "truthy (Some JNull) = False"
| "truthy (Some (JBool b)) = b"
| "truthy (Some (JNum n)) = (n \<noteq> 0)"
| "truthy (Some (JStr s)) = (s \<noteq> [])"
| "truthy (Some (JArr xs)) = True"
| "truthy (Some (JObj kvs)) = True"

text \<open>
  ToString, for the values of the data model: decimal digits for an integer (as
  JavaScript prints those below \<open>10^21\<close>; from there on it prints an exponent), elements
  joined by commas for an array, null elements printing as nothing, and the fixed text
  for an object (one that carries an own \<^verbatim>\<open>toString\<close> or \<^verbatim>\<open>valueOf\<close> property, which
  JavaScript would consult, is not a value of the data model).
\<close>

definition digit_char :: "nat \<Rightarrow> char" where
  "digit_char d = char_of (48 + d)"

function string_of_nat :: "nat \<Rightarrow> string" where
  "string_of_nat n =
     (if n < 10 then [digit_char n] else string_of_nat (n div 10) @ [digit_char (n mod 10)])"
  by pat_completeness auto
termination
  by (relation "measure id") auto

definition string_of_int :: "int \<Rightarrow> string" where
  "string_of_int i = (if i < 0 then ''-'' @ string_of_nat (nat (- i)) else string_of_nat (nat i))"

fun join_comma :: "string list \<Rightarrow> string" where
  "join_comma [] = []"
| "join_comma [s] = s"
| "join_comma (s # t # ss) = s @ '','' @ join_comma (t # ss)"

fun to_string :: "json \<Rightarrow> string" where
  "to_string JNull = ''null''"
| "to_string (JBool b) = (if b then ''true'' else ''false'')"
| "to_string (JNum n) = string_of_int n"
| "to_string (JStr s) = s"
| "to_string (JArr xs) = join_comma (map (\<lambda>x. if x = JNull then [] else to_string x) xs)"
| "to_string (JObj kvs) = ''[object Object]''"

text \<open>
  The value argument of \<^verbatim>\<open>style.setProperty(name, value)\<close> as the string the style
  declaration receives: undefined becomes the text "undefined", null becomes the empty
  string (the argument is declared LegacyNullToEmptyString), anything else is ToString.
\<close>

fun css_arg :: "json option \<Rightarrow> string" where
  "css_arg None = ''undefined''"
| "css_arg (Some JNull) = []"
| "css_arg (Some v) = to_string v"

section \<open>The page, the storage and the controller\<close>

datatype error = TypeError | FetchFailed | HttpError nat | SyntaxError | NoThemeData

text \<open>
  The CacheEntry that \<^verbatim>\<open>setCachedTheme\<close> builds. The storage slot under the fixed key holds
  either nothing or such an entry, \<^verbatim>\<open>setCachedTheme\<close> being the only writer of the slot:
  \<^verbatim>\<open>JSON.stringify\<close> followed by \<^verbatim>\<open>JSON.parse\<close> gives a JSON value back unchanged, and a
  slot whose text does not parse is read as no entry (the catch of \<^verbatim>\<open>getCachedTheme\<close>).
  The data of an entry is any JSON value; the readers test it for truthiness.
\<close>

record cache_entry =
  data :: json
  timestamp :: int
  version :: int

text \<open>
  The host's app switcher \<^verbatim>\<open>frappe.app.sidebar.apps_switcher.set_current_app\<close>: missing,
  or present and either accepting the call or throwing.
\<close>

datatype switcher = NoSwitcher | SwitcherOk | SwitcherThrows

text \<open>
  Everything the class reads or writes.
  \<^item> \<open>themeData\<close>: the field \<^verbatim>\<open>this.themeData\<close>, \<open>JNull\<close> for null;
  \<^item> \<open>storage\<close>, \<open>storage_writable\<close>: the localStorage slot, and whether
    \<^verbatim>\<open>setItem\<close> succeeds (it throws when the storage is full or disabled);
  \<^item> \<open>fetches\<close>: how many times \<^verbatim>\<open>fetch\<close> has been called;
  \<^item> \<open>style\<close>: the inline style of the document root as \<^verbatim>\<open>getPropertyValue\<close> reads it,
    the empty string for a property that is not set;
  \<^item> \<open>loginBox\<close>: the element \<^verbatim>\<open>.for-login\<close> when it exists, with whether it carries the
    class theme-ready; \<open>timers\<close>: the delays of the pending \<^verbatim>\<open>setTimeout\<close> callbacks,
    each of which adds that class;
  \<^item> \<open>sidebarContainer\<close>: the element \<^verbatim>\<open>.body-sidebar-container\<close> when it exists, with
    whether it carries the class expanded;
  \<^item> \<open>searchBar\<close>: the search bar element when it exists, with its inline display;
  \<^item> \<open>user_roles\<close>: \<^verbatim>\<open>frappe?.boot?.user?.roles\<close>, \<open>None\<close> when the chain gives
    undefined, otherwise the host's array of role names;
  \<^item> \<open>apps_switcher\<close>, \<open>current_app\<close>, \<open>warnings\<close>: the host's app switcher, the app it
    was last given, and the number of \<^verbatim>\<open>console.warn\<close> calls;
  \<^item> \<open>listeners\<close>: whether \<^verbatim>\<open>setupEventListeners\<close> has run.
\<close>

record world =
  themeData :: json
  storage :: "cache_entry option"
  storage_writable :: bool
  fetches :: nat
  style :: "string \<Rightarrow> string"
  loginBox :: "bool option"
  timers :: "nat list"
  sidebarContainer :: "bool option"
  searchBar :: "string option"
  user_roles :: "string list option"
  apps_switcher :: switcher
  current_app :: "json option"
  warnings :: nat
  listeners :: bool

text \<open>A call either returns, or throws with the page as it was at the throw.\<close>

datatype outcome = Done world | Thrown error world

fun state_of :: "outcome \<Rightarrow> world" where
  "state_of (Done w) = w"
| "state_of (Thrown e w) = w"

fun thrown :: "outcome \<Rightarrow> error option" where
  "thrown (Done w) = None"
| "thrown (Thrown e w) = Some e"

fun and_then :: "outcome \<Rightarrow> (world \<Rightarrow> outcome) \<Rightarrow> outcome" where
  "and_then (Done w) f = f w"
| "and_then (Thrown e w) f = Thrown e w"

section \<open>Cache\<close>

definition cacheTimeout :: int where
  "cacheTimeout = 24 * 60 * 60 * 1000"

definition getCachedTheme :: "world \<Rightarrow> cache_entry option" where
  "getCachedTheme w = storage w"

text \<open>\<open>t\<close> is what \<^verbatim>\<open>Date.now()\<close> returns at the call. A failing write is swallowed.\<close>

definition setCachedTheme :: "int \<Rightarrow> json \<Rightarrow> world \<Rightarrow> world" where
  "setCachedTheme t theme w =
     (if storage_writable w
      then w\<lparr>storage := Some \<lparr>data = theme, timestamp = t, version = 1\<rparr>\<rparr>
      else w)"

definition isCacheValid :: "int \<Rightarrow> world \<Rightarrow> bool" where
  "isCacheValid now w =
     (case getCachedTheme w of
        None \<Rightarrow> False
      | Some cachedData \<Rightarrow> now - timestamp cachedData < cacheTimeout)"

definition clearCache :: "world \<Rightarrow> world" where
  "clearCache w = w\<lparr>storage := None\<rparr>"

section \<open>Loading\<close>

text \<open>
  What the network gives to one \<^verbatim>\<open>fetch\<close>: a rejected promise, or a response with its
  status and its body as \<^verbatim>\<open>response.json()\<close> parses it (\<open>None\<close> when that rejects).
\<close>

datatype fetch_result = FetchRejected | Response nat "json option"

definition response_ok :: "nat \<Rightarrow> bool" where
  "response_ok status = (200 \<le> status \<and> status \<le> 299)"

text \<open>\<^verbatim>\<open>data?.message || data\<close>\<close>

definition unwrap :: "json \<Rightarrow> json" where
  "unwrap d =
     (case (if d = JNull then None else fld d ''message'') of
        None \<Rightarrow> d
      | Some m \<Rightarrow> if truthy (Some m) then m else d)"

text \<open>The try block of \<^verbatim>\<open>loadTheme\<close>; \<open>t\<close> is the time at which the entry is written.\<close>

definition loadTheme_try :: "int \<Rightarrow> fetch_result \<Rightarrow> world \<Rightarrow> outcome" where
  "loadTheme_try t r w =
     (let w0 = w\<lparr>fetches := Suc (fetches w)\<rparr> in
      case r of
        FetchRejected \<Rightarrow> Thrown FetchFailed w0
      | Response status body \<Rightarrow>
          if \<not> response_ok status then Thrown (HttpError status) w0
          else (case body of
                  None \<Rightarrow> Thrown SyntaxError w0
                | Some d \<Rightarrow>
                    let w1 = w0\<lparr>themeData := unwrap d\<rparr> in
                    if \<not> truthy (Some (themeData w1)) then Thrown NoThemeData w1
                    else Done (setCachedTheme t (themeData w1) w1)))"

definition loadTheme :: "int \<Rightarrow> fetch_result \<Rightarrow> world \<Rightarrow> outcome" where
  "loadTheme t r w =
     (case loadTheme_try t r w of
        Done w' \<Rightarrow> Done w'
      | Thrown e w' \<Rightarrow>
          (case getCachedTheme w' of
             None \<Rightarrow> Thrown e w'
           | Some cachedData \<Rightarrow>
               if truthy (Some (data cachedData))
               then Done (w'\<lparr>themeData := data cachedData\<rparr>)
               else Thrown e w'))"

definition loadThemeIfNeeded :: "int \<Rightarrow> int \<Rightarrow> fetch_result \<Rightarrow> world \<Rightarrow> outcome" where
  "loadThemeIfNeeded now t r w = (if isCacheValid now w then Done w else loadTheme t r w)"

section \<open>Role match\<close>

text \<open>\<^verbatim>\<open>entries.some(u => u.role === role)\<close> on the entries of an array, left to right.\<close>

fun some_role :: "json list \<Rightarrow> string \<Rightarrow> error + bool" where
  "some_role [] role = Inr False"
| "some_role (u # us) role =
     (if u = JNull then Inl TypeError
      else if fld u ''role'' = Some (JStr role) then Inr True
      else some_role us role)"

text \<open>\<^verbatim>\<open>hide_search.some(...)\<close>: only an array has the method.\<close>

fun hide_search_some :: "json \<Rightarrow> string \<Rightarrow> error + bool" where
  "hide_search_some (JArr es) role = some_role es role"
| "hide_search_some _ role = Inl TypeError"

text \<open>\<^verbatim>\<open>currentUser.some(role => hide_search.some(u => u.role === role))\<close>\<close>

fun some_user_role :: "string list \<Rightarrow> json \<Rightarrow> error + bool" where
  "some_user_role [] hs = Inr False"
| "some_user_role (role # roles) hs =
     (case hide_search_some hs role of
        Inl e \<Rightarrow> Inl e
      | Inr b \<Rightarrow> if b then Inr True else some_user_role roles hs)"

definition getUserRoles :: "world \<Rightarrow> error + bool" where
  "getUserRoles w =
     (case user_roles w of
        None \<Rightarrow> Inr False
      | Some currentUser \<Rightarrow>
          (case (if themeData w = JNull then None else fld (themeData w) ''hide_search'') of
             None \<Rightarrow> Inr False
           | Some hs \<Rightarrow>
               if \<not> truthy (Some hs) then Inr False
               else if ''Administrator'' \<in> set currentUser
                    then hide_search_some hs ''Administrator''
                    else some_user_role currentUser hs))"

section \<open>Style properties of the document root\<close>

text \<open>
  \<^verbatim>\<open>root.style.setProperty(name, value)\<close> and \<^verbatim>\<open>root.style.removeProperty(name)\<close>.
  Setting the empty string removes the property, which is why one function space serves
  both; every other value is taken as a well-formed custom property value and stored.
\<close>

definition setProperty :: "(string \<Rightarrow> string) \<Rightarrow> string \<Rightarrow> string \<Rightarrow> (string \<Rightarrow> string)" where
  "setProperty s name v = s(name := v)"

definition removeProperty :: "(string \<Rightarrow> string) \<Rightarrow> string \<Rightarrow> (string \<Rightarrow> string)" where
  "removeProperty s name = s(name := [])"

text \<open>A run of \<^verbatim>\<open>setProperty\<close> calls, in the order of the list.\<close>

fun set_props :: "(string \<times> string) list \<Rightarrow> (string \<Rightarrow> string) \<Rightarrow> (string \<Rightarrow> string)" where
  "set_props [] s = s"
| "set_props (p # ps) s = set_props ps (setProperty s (fst p) (snd p))"

definition cssVariables :: "string list" where
  "cssVariables =
    [''--login-bg-color'', ''--login-bg-image'', ''--login-box-position'', ''--login-box-right'',
     ''--login-box-left'',
     ''--login-btn-bg'', ''--login-btn-color'', ''--login-btn-hover-bg'', ''--login-btn-hover-color'',
     ''--login-box-bg'', ''--page-heading-color'', ''--input-bg'', ''--input-color'', ''--input-border'',
     ''--input-label-color'', ''--navbar-bg'', ''--navbar-color'', ''--hide-help'', ''--btn-primary-bg'',
     ''--btn-primary-color'', ''--btn-primary-hover-bg'', ''--btn-primary-hover-color'',
     ''--btn-secondary-bg'',
     ''--btn-secondary-color'', ''--btn-secondary-hover-bg'', ''--btn-secondary-hover-color'',
     ''--body-bg'',
     ''--content-bg'', ''--table-head-bg'', ''--table-head-color'', ''--table-body-bg'',
     ''--table-body-color'',
     ''--hide-like-comment'', ''--widget-bg'', ''--widget-border'', ''--widget-color'',
     ''--sidebar-expanded'',
     ''--login-content-border'', ''--login-title-display'', ''--login-title-after-display'',
     ''--login-title-after-justify'', ''--login-title-after-margin'', ''--login-title-after-content'',
     ''--login-title-after-color'',
     ''--login-box-top'', ''--login-box-bg-override'', ''--login-box-border-radius'',
     ''--search-bar-display'',
     ''--navbar-toggler-border'', ''--breadcrumb-disabled-color'', ''--help-nav-link-color'',
     ''--help-nav-link-stroke'',
     ''--hide-app-switcher'', ''--app-switcher-pointer-events'']"

definition clearCSSVariables :: "world \<Rightarrow> world" where
  "clearCSSVariables w = w\<lparr>style := foldl removeProperty (style w) cssVariables\<rparr>"

definition default_props :: "(string \<times> string) list" where
  "default_props =
    [(''--login-box-position'', ''static''),
     (''--login-box-right'', ''auto''),
     (''--login-box-left'', ''auto''),
     (''--login-box-top'', ''18%''),
     (''--login-box-bg'', ''#fff''),
     (''--login-content-border'', ''2px solid #d1d8dd''),
     (''--login-title-display'', ''block''),
     (''--login-title-after-display'', ''none''),
     (''--hide-help'', ''block''),
     (''--hide-like-comment'', ''block''),
     (''--hide-app-switcher'', ''block''),
     (''--app-switcher-pointer-events'', ''auto''),
     (''--sidebar-expanded'', []),
     (''--login-box-width'', ''400px''),
     (''--search-bar-display'', ''block''),
     (''--navbar-toggler-border'', ''#dee2e6''),
     (''--breadcrumb-disabled-color'', ''#6c757d''),
     (''--help-nav-link-color'', ''inherit''),
     (''--help-nav-link-stroke'', ''currentColor'')]"

definition setDefaultCSSVariables :: "world \<Rightarrow> world" where
  "setDefaultCSSVariables w = w\<lparr>style := set_props default_props (style w)\<rparr>"

text \<open>
  The conditional part of \<^verbatim>\<open>setCSSVariables\<close>, for a theme that is not null, as the list
  of the \<^verbatim>\<open>setProperty\<close> calls it makes, in order. \<open>direct\<close> is the recurring
  \<^verbatim>\<open>if (theme.f) root.style.setProperty(p, theme.f)\<close>.
\<close>

definition direct :: "json \<Rightarrow> string \<Rightarrow> string \<Rightarrow> (string \<times> string) list" where
  "direct theme f p = (if truthy (fld theme f) then [(p, css_arg (fld theme f))] else [])"

text \<open>A value interpolated into a template literal.\<close>

fun tmpl :: "json option \<Rightarrow> string" where
  "tmpl None = ''undefined''"
| "tmpl (Some v) = to_string v"

definition login_background_props :: "json \<Rightarrow> (string \<times> string) list" where
  "login_background_props theme =
     direct theme ''login_page_background_color'' ''--login-bg-color'' @
     (if truthy (fld theme ''login_page_background_image'')
      then [(''--login-bg-image'',
             ''url('' @ [CHR 0x22] @ tmpl (fld theme ''login_page_background_image'') @ [CHR 0x22] @ '')'')]
      else [])"

definition login_box_props :: "json \<Rightarrow> (string \<times> string) list" where
  "login_box_props theme =
     (if truthy (fld theme ''login_box_position'')
         \<and> fld theme ''login_box_position'' \<noteq> Some (JStr ''Default'')
      then [(''--login-box-position'', ''absolute''),
            (''--login-box-right'',
               if fld theme ''login_box_position'' = Some (JStr ''Right'') then ''10%'' else ''auto''),
            (''--login-box-left'',
               if fld theme ''login_box_position'' = Some (JStr ''Left'') then ''10%'' else ''auto''),
            (''--login-box-padding'',
               if fld theme ''is_app_details_inside_the_box'' = Some (JNum 1)
               then ''18px 40px 40px 40px'' else ''40px'')]
      else []) @
     (if fld theme ''is_app_details_inside_the_box'' \<noteq> None
      then [(''--login-box-top'',
               if fld theme ''is_app_details_inside_the_box'' = Some (JNum 1) then ''26%'' else ''18%'')]
      else []) @
     (if fld theme ''is_app_details_inside_the_box'' = Some (JNum 1)
      then [(''--login-box-bg-override'', css_arg (fld theme ''login_box_background_color'')),
            (''--login-box-border-radius'', ''10px'')]
      else [])"

definition login_button_props :: "json \<Rightarrow> (string \<times> string) list" where
  "login_button_props theme =
     direct theme ''login_button_background_color'' ''--login-btn-bg'' @
     direct theme ''login_button_text_color'' ''--login-btn-color'' @
     direct theme ''login_page_button_hover_background_color'' ''--login-btn-hover-bg'' @
     direct theme ''login_page_button_hover_text_color'' ''--login-btn-hover-color'' @
     direct theme ''login_box_background_color'' ''--login-box-bg'' @
     direct theme ''page_heading_text_color'' ''--page-heading-color'' @
     (if fld theme ''is_app_details_inside_the_box'' = Some (JNum 1)
      then [(''--login-content-border'', ''none'')]
      else [])"

definition login_title_props :: "json \<Rightarrow> (string \<times> string) list" where
  "login_title_props theme =
     (if truthy (fld theme ''login_page_title'')
      then [(''--login-title-display'', ''none''),
            (''--login-title-after-display'', ''flex''),
            (''--login-title-after-justify'', ''center''),
            (''--login-title-after-margin'', ''10px''),
            (''--login-title-after-content'',
               [CHR 0x27] @ tmpl (fld theme ''login_page_title'') @ [CHR 0x27])] @
           direct theme ''page_heading_text_color'' ''--login-title-after-color''
      else [])"

definition input_props :: "json \<Rightarrow> (string \<times> string) list" where
  "input_props theme =
     direct theme ''input_background_color'' ''--input-bg'' @
     direct theme ''input_text_color'' ''--input-color'' @
     direct theme ''input_border_color'' ''--input-border'' @
     direct theme ''input_label_color'' ''--input-label-color''"

definition navbar_props :: "json \<Rightarrow> (string \<times> string) list" where
  "navbar_props theme =
     direct theme ''navbar_color'' ''--navbar-bg'' @
     direct theme ''navbar_text_color'' ''--navbar-color'' @
     (if fld theme ''hide_help_button'' \<noteq> None
      then [(''--hide-help'', if truthy (fld theme ''hide_help_button'') then ''none'' else ''block'')]
      else []) @
     (if fld theme ''hide_app_switcher'' \<noteq> None
      then [(''--hide-app-switcher'',
               if truthy (fld theme ''hide_app_switcher'') then ''none'' else ''block''),
            (''--app-switcher-pointer-events'',
               if truthy (fld theme ''hide_app_switcher'') then ''none'' else ''auto'')]
      else [])"

definition button_props :: "json \<Rightarrow> (string \<times> string) list" where
  "button_props theme =
     direct theme ''button_background_color'' ''--btn-primary-bg'' @
     direct theme ''button_text_color'' ''--btn-primary-color'' @
     direct theme ''button_hover_background_color'' ''--btn-primary-hover-bg'' @
     direct theme ''button_hover_text_color'' ''--btn-primary-hover-color'' @
     direct theme ''secondary_button_background_color'' ''--btn-secondary-bg'' @
     direct theme ''secondary_button_text_color'' ''--btn-secondary-color'' @
     direct theme ''secondary_button_hover_background_color'' ''--btn-secondary-hover-bg'' @
     direct theme ''secondary_button_hover_text_color'' ''--btn-secondary-hover-color''"

definition body_props :: "json \<Rightarrow> (string \<times> string) list" where
  "body_props theme =
     direct theme ''body_background_color'' ''--body-bg'' @
     direct theme ''main_body_content_box_background_color'' ''--content-bg'' @
     direct theme ''main_body_content_box_text_color'' ''--content-text-color'' @
     direct theme ''sidebar_background_color'' ''--sidebar-bg'' @
     direct theme ''sidebar_text_color'' ''--sidebar-text-color''"

definition table_props :: "json \<Rightarrow> (string \<times> string) list" where
  "table_props theme =
     direct theme ''table_head_background_color'' ''--table-head-bg'' @
     direct theme ''table_head_text_color'' ''--table-head-color'' @
     direct theme ''table_body_background_color'' ''--table-body-bg'' @
     direct theme ''table_body_text_color'' ''--table-body-color'' @
     (if fld theme ''table_hide_like_comment_section'' \<noteq> None
      then [(''--hide-like-comment'',
               if truthy (fld theme ''table_hide_like_comment_section'') then ''none'' else ''block'')]
      else [])"

definition widget_props :: "json \<Rightarrow> (string \<times> string) list" where
  "widget_props theme =
     direct theme ''number_card_background_color'' ''--widget-bg'' @
     direct theme ''number_card_border_color'' ''--widget-border'' @
     direct theme ''number_card_text_color'' ''--widget-color'' @
     (if fld theme ''hide_side_bar'' \<noteq> None
      then [(''--sidebar-expanded'',
               if fld theme ''hide_side_bar'' = Some (JNum 0) then ''expanded'' else [])]
      else [])"

definition theme_props :: "json \<Rightarrow> (string \<times> string) list" where
  "theme_props theme =
     login_background_props theme @ login_box_props theme @ login_button_props theme @
     login_title_props theme @ input_props theme @ navbar_props theme @ button_props theme @
     body_props theme @ table_props theme @ widget_props theme"

text \<open>
  \<^verbatim>\<open>setCSSVariables\<close>: clear, set the defaults, then read the fields of the theme. The
  first read, \<^verbatim>\<open>theme.login_page_background_color\<close>, throws a TypeError when the theme is
  null; when it does not, no later read throws.
\<close>

definition setCSSVariables :: "world \<Rightarrow> outcome" where
  "setCSSVariables w =
     (let theme = themeData w;
          w1 = setDefaultCSSVariables (clearCSSVariables w)
      in if theme = JNull then Thrown TypeError w1
         else Done (w1\<lparr>style := set_props (theme_props theme) (style w1)\<rparr>))"

section \<open>Applying a theme\<close>

definition toggleSidebar :: "world \<Rightarrow> outcome" where
  "toggleSidebar w =
     (case sidebarContainer w of
        None \<Rightarrow> Done w
      | Some expanded \<Rightarrow>
          if themeData w = JNull then Thrown TypeError w
          else if fld (themeData w) ''hide_side_bar'' = Some (JNum 0)
               then Done (w\<lparr>sidebarContainer := Some True\<rparr>)
               else Done (w\<lparr>sidebarContainer := Some False\<rparr>))"

definition toggleSearchBar :: "world \<Rightarrow> outcome" where
  "toggleSearchBar w =
     (case searchBar w of
        None \<Rightarrow> Done w
      | Some display \<Rightarrow>
          (case getUserRoles w of
             Inl e \<Rightarrow> Thrown e w
           | Inr hide \<Rightarrow> if hide then Done (w\<lparr>searchBar := Some ''none''\<rparr>) else Done w))"

definition setDefaultApp :: "world \<Rightarrow> outcome" where
  "setDefaultApp w =
     (if themeData w = JNull then Thrown TypeError w
      else if \<not> truthy (fld (themeData w) ''hide_app_switcher'')
              \<or> \<not> truthy (fld (themeData w) ''default_app'')
           then Done w
           else (case apps_switcher w of
                   NoSwitcher \<Rightarrow> Done w
                 | SwitcherOk \<Rightarrow> Done (w\<lparr>current_app := fld (themeData w) ''default_app''\<rparr>)
                 | SwitcherThrows \<Rightarrow> Done (w\<lparr>warnings := Suc (warnings w)\<rparr>)))"

definition showLoginBox :: "world \<Rightarrow> world" where
  "showLoginBox w =
     (case loginBox w of
        None \<Rightarrow> w
      | Some ready \<Rightarrow> w\<lparr>timers := timers w @ [50]\<rparr>)"

definition showLoginBoxFallback :: "world \<Rightarrow> world" where
  "showLoginBoxFallback w =
     (case loginBox w of
        None \<Rightarrow> w
      | Some ready \<Rightarrow> if \<not> ready then w\<lparr>timers := timers w @ [100]\<rparr> else w)"

text \<open>The pending timer callbacks run: each adds theme-ready to the login box.\<close>

definition run_timers :: "world \<Rightarrow> world" where
  "run_timers w =
     (if timers w = [] then w
      else w\<lparr>loginBox := (case loginBox w of None \<Rightarrow> None | Some ready \<Rightarrow> Some True),
             timers := []\<rparr>)"

definition applyTheme :: "world \<Rightarrow> outcome" where
  "applyTheme w =
     and_then (setCSSVariables w) (\<lambda>w1.
     and_then (toggleSidebar w1) (\<lambda>w2.
     and_then (toggleSearchBar w2) (\<lambda>w3.
     and_then (setDefaultApp w3) (\<lambda>w4.
     Done (showLoginBox w4)))))"

section \<open>Startup and listeners\<close>

definition applyCachedTheme :: "world \<Rightarrow> outcome" where
  "applyCachedTheme w =
     (case getCachedTheme w of
        None \<Rightarrow> Done (showLoginBoxFallback w)
      | Some cachedData \<Rightarrow>
          if truthy (Some (data cachedData))
          then applyTheme (w\<lparr>themeData := data cachedData\<rparr>)
          else Done (showLoginBoxFallback w))"

definition setupEventListeners :: "world \<Rightarrow> world" where
  "setupEventListeners w = w\<lparr>listeners := True\<rparr>"

text \<open>
  The try block of \<^verbatim>\<open>init\<close>. \<open>now\<close> is the time of the validity check, \<open>t\<close> the time
  at which a fetched theme is cached, \<open>r\<close> what the network answers if it is asked.
\<close>

definition init_try :: "int \<Rightarrow> int \<Rightarrow> fetch_result \<Rightarrow> world \<Rightarrow> outcome" where
  "init_try now t r w =
     and_then (applyCachedTheme w) (\<lambda>w1.
     and_then (loadThemeIfNeeded now t r w1) (\<lambda>w2.
     and_then (if truthy (Some (themeData w2)) then applyTheme w2 else Done w2) (\<lambda>w3.
     Done (setupEventListeners w3))))"

definition init :: "int \<Rightarrow> int \<Rightarrow> fetch_result \<Rightarrow> world \<Rightarrow> outcome" where
  "init now t r w =
     (case init_try now t r w of
        Done w' \<Rightarrow> Done w'
      | Thrown e w' \<Rightarrow> and_then (applyTheme w') (\<lambda>w''. Done (showLoginBoxFallback w'')))"

text \<open>
  The mutation observer's callback is \<^verbatim>\<open>toggleSearchBar\<close>; an error it throws is reported
  by the browser and the page goes on. \<open>observer_run\<close> is a run of such callbacks, the
  theme state and the user's roles being whatever they have become before each one.
\<close>

fun observer_run :: "(json \<times> string list option) list \<Rightarrow> world \<Rightarrow> world" where
  "observer_run [] w = w"
| "observer_run (c # cs) w =
     observer_run cs (state_of (toggleSearchBar (w\<lparr>themeData := fst c, user_roles := snd c\<rparr>)))"

text \<open>
  The answers of the network on which the try block of \<^verbatim>\<open>loadTheme\<close> throws: a
  rejected fetch, a status outside 200..299, a body that is not JSON, an empty payload.
\<close>

fun fetch_fails :: "fetch_result \<Rightarrow> bool" where
  "fetch_fails FetchRejected = True"
| "fetch_fails (Response status None) = True"
| "fetch_fails (Response status (Some d)) = (\<not> response_ok status \<or> \<not> truthy (Some (unwrap d)))"

text \<open>
  A page on first load, before the controller has done anything: no theme, an empty
  writable storage, no inline style on the root, the login box, the sidebar container
  and the search bar present and untouched, no roles and no app switcher from the host.
\<close>

definition fresh_page :: world where
  "fresh_page =
     \<lparr>themeData = JNull, storage = None, storage_writable = True, fetches = 0,
      style = (\<lambda>name. []), loginBox = Some False, timers = [],
      sidebarContainer = Some False, searchBar = Some [], user_roles = None,
      apps_switcher = NoSwitcher, current_app = None, warnings = 0, listeners = False\<rparr>"

section \<open>Notions used in the proofs\<close>

text \<open>All the assignments one run of \<^verbatim>\<open>setCSSVariables\<close> makes, in order.\<close>

definition applied_props :: "json \<Rightarrow> (string \<times> string) list" where
  "applied_props theme =
     map (\<lambda>n. (n, [])) cssVariables @ default_props @
     (if theme = JNull then [] else theme_props theme)"

text \<open>The value that the last assignment to \<open>k\<close> in a run gives it, if the run has one.\<close>

definition last_set :: "(string \<times> string) list \<Rightarrow> string \<Rightarrow> string option" where
  "last_set ps k = map_of (rev ps) k"

text \<open>What follows \<^verbatim>\<open>toggleSearchBar\<close>, \<^verbatim>\<open>toggleSidebar\<close> and \<^verbatim>\<open>setCSSVariables\<close> in \<^verbatim>\<open>applyTheme\<close>.\<close>

definition after_search :: "world \<Rightarrow> outcome" where
  "after_search w3 = and_then (setDefaultApp w3) (\<lambda>w4. Done (showLoginBox w4))"

definition after_sidebar :: "world \<Rightarrow> outcome" where
  "after_sidebar w2 = and_then (toggleSearchBar w2) after_search"

definition after_css :: "world \<Rightarrow> outcome" where
  "after_css w1 = and_then (toggleSidebar w1) after_sidebar"

section \<open>Runs of assignments\<close>

lemma set_props_append: "set_props (xs @ ys) s = set_props ys (set_props xs s)"
  by (induction xs arbitrary: s) auto

lemma set_props_lookup:
  "set_props ps s k = (case map_of (rev ps) k of None \<Rightarrow> s k | Some v \<Rightarrow> v)"
proof (induction ps arbitrary: s)
  case Nil
  then show ?case by simp
next
  case (Cons p ps)
  show ?case
    by (cases p) (auto simp: Cons.IH setProperty_def map_add_def split: option.splits)
qed

lemma set_props_idem: "set_props ps (set_props ps s) = set_props ps s"
  by (rule ext) (simp add: set_props_lookup split: option.splits)

lemma foldl_removeProperty:
  "foldl removeProperty s names = set_props (map (\<lambda>n. (n, [])) names) s"
  by (induction names arbitrary: s) (auto simp: removeProperty_def setProperty_def)

lemma last_set_Nil [simp]: "last_set [] k = None"
  by (simp add: last_set_def)

lemma last_set_Cons [simp]:
  "last_set (p # ps) k =
     (case last_set ps k of None \<Rightarrow> (if k = fst p then Some (snd p) else None) | Some v \<Rightarrow> Some v)"
  by (cases p) (auto simp: last_set_def map_add_def split: option.splits)

lemma last_set_append [simp]:
  "last_set (xs @ ys) k = (case last_set ys k of None \<Rightarrow> last_set xs k | Some v \<Rightarrow> Some v)"
  by (auto simp: last_set_def map_add_def split: option.splits)

lemma last_set_if [simp]:
  "last_set (if c then xs else ys) k = (if c then last_set xs k else last_set ys k)"
  by simp

lemma last_set_direct [simp]:
  "last_set (direct theme f p) k =
     (if k = p \<and> truthy (fld theme f) then Some (css_arg (fld theme f)) else None)"
  by (simp add: direct_def)

lemma set_props_last_set:
  "set_props ps s k = (case last_set ps k of None \<Rightarrow> s k | Some v \<Rightarrow> v)"
  by (simp add: set_props_lookup last_set_def)

lemma login_background_props_other:
  "k \<notin> {''--login-bg-color'', ''--login-bg-image''} \<Longrightarrow>
   last_set (login_background_props theme) k = None"
  by (simp add: login_background_props_def)

lemma login_box_props_other:
  "k \<notin> {''--login-box-position'', ''--login-box-right'', ''--login-box-left'',
         ''--login-box-padding'', ''--login-box-top'', ''--login-box-bg-override'',
         ''--login-box-border-radius''} \<Longrightarrow>
   last_set (login_box_props theme) k = None"
  by (simp add: login_box_props_def)

lemma login_button_props_other:
  "k \<notin> {''--login-btn-bg'', ''--login-btn-color'', ''--login-btn-hover-bg'',
         ''--login-btn-hover-color'', ''--login-box-bg'', ''--page-heading-color'',
         ''--login-content-border''} \<Longrightarrow>
   last_set (login_button_props theme) k = None"
  by (simp add: login_button_props_def)

lemma login_title_props_other:
  "k \<notin> {''--login-title-display'', ''--login-title-after-display'',
         ''--login-title-after-justify'', ''--login-title-after-margin'',
         ''--login-title-after-content'', ''--login-title-after-color''} \<Longrightarrow>
   last_set (login_title_props theme) k = None"
  by (simp add: login_title_props_def)

lemma input_props_other:
  "k \<notin> {''--input-bg'', ''--input-color'', ''--input-border'', ''--input-label-color''} \<Longrightarrow>
   last_set (input_props theme) k = None"
  by (simp add: input_props_def)

lemma navbar_props_other:
  "k \<notin> {''--navbar-bg'', ''--navbar-color'', ''--hide-help'', ''--hide-app-switcher'',
         ''--app-switcher-pointer-events''} \<Longrightarrow>
   last_set (navbar_props theme) k = None"
  by (simp add: navbar_props_def)

lemma button_props_other:
  "k \<notin> {''--btn-primary-bg'', ''--btn-primary-color'', ''--btn-primary-hover-bg'',
         ''--btn-primary-hover-color'', ''--btn-secondary-bg'', ''--btn-secondary-color'',
         ''--btn-secondary-hover-bg'', ''--btn-secondary-hover-color''} \<Longrightarrow>
   last_set (button_props theme) k = None"
  by (simp add: button_props_def)

lemma body_props_other:
  "k \<notin> {''--body-bg'', ''--content-bg'', ''--content-text-color'', ''--sidebar-bg'',
         ''--sidebar-text-color''} \<Longrightarrow>
   last_set (body_props theme) k = None"
  by (simp add: body_props_def)

lemma table_props_other:
  "k \<notin> {''--table-head-bg'', ''--table-head-color'', ''--table-body-bg'',
         ''--table-body-color'', ''--hide-like-comment''} \<Longrightarrow>
   last_set (table_props theme) k = None"
  by (simp add: table_props_def)

lemma widget_props_other:
  "k \<notin> {''--widget-bg'', ''--widget-border'', ''--widget-color'', ''--sidebar-expanded''} \<Longrightarrow>
   last_set (widget_props theme) k = None"
  by (simp add: widget_props_def)

lemmas props_other = login_background_props_other login_box_props_other
  login_button_props_other login_title_props_other input_props_other navbar_props_other
  button_props_other body_props_other table_props_other widget_props_other

section \<open>What one application of a theme does to the page\<close>

lemma setCSSVariables_style:
  "style (state_of (setCSSVariables w)) = set_props (applied_props (themeData w)) (style w)"
  by (simp add: setCSSVariables_def Let_def applied_props_def set_props_append
      clearCSSVariables_def setDefaultCSSVariables_def foldl_removeProperty)

lemma setCSSVariables_thrown:
  "thrown (setCSSVariables w) = (if themeData w = JNull then Some TypeError else None)"
  by (simp add: setCSSVariables_def Let_def)

lemma setCSSVariables_frame:
  "themeData (state_of (setCSSVariables w)) = themeData w"
  "sidebarContainer (state_of (setCSSVariables w)) = sidebarContainer w"
  "searchBar (state_of (setCSSVariables w)) = searchBar w"
  "user_roles (state_of (setCSSVariables w)) = user_roles w"
  "apps_switcher (state_of (setCSSVariables w)) = apps_switcher w"
  "loginBox (state_of (setCSSVariables w)) = loginBox w"
  "storage (state_of (setCSSVariables w)) = storage w"
  "fetches (state_of (setCSSVariables w)) = fetches w"
  by (simp_all add: setCSSVariables_def Let_def clearCSSVariables_def setDefaultCSSVariables_def)

lemma getUserRoles_cong:
  "user_roles w' = user_roles w \<Longrightarrow> themeData w' = themeData w \<Longrightarrow> getUserRoles w' = getUserRoles w"
  unfolding getUserRoles_def by (simp cong: option.case_cong)

lemma and_then_frame:
  assumes "\<And>w. g (state_of (f w)) = g w"
  shows "g (state_of (and_then x f)) = g (state_of x)"
  by (cases x) (simp_all add: assms)

lemma toggleSidebar_frame:
  "style (state_of (toggleSidebar w)) = style w"
  "themeData (state_of (toggleSidebar w)) = themeData w"
  "user_roles (state_of (toggleSidebar w)) = user_roles w"
  "searchBar (state_of (toggleSidebar w)) = searchBar w"
  "storage (state_of (toggleSidebar w)) = storage w"
  "fetches (state_of (toggleSidebar w)) = fetches w"
  by (simp_all add: toggleSidebar_def split: option.splits)

lemma toggleSidebar_sidebar:
  "sidebarContainer (state_of (toggleSidebar w)) =
     (case sidebarContainer w of
        None \<Rightarrow> None
      | Some b \<Rightarrow> if themeData w = JNull then Some b
                  else Some (fld (themeData w) ''hide_side_bar'' = Some (JNum 0)))"
  by (simp add: toggleSidebar_def split: option.splits)

lemma toggleSearchBar_frame:
  "style (state_of (toggleSearchBar w)) = style w"
  "themeData (state_of (toggleSearchBar w)) = themeData w"
  "user_roles (state_of (toggleSearchBar w)) = user_roles w"
  "sidebarContainer (state_of (toggleSearchBar w)) = sidebarContainer w"
  "storage (state_of (toggleSearchBar w)) = storage w"
  "fetches (state_of (toggleSearchBar w)) = fetches w"
  by (simp_all add: toggleSearchBar_def split: option.splits sum.splits)

lemma toggleSearchBar_searchBar:
  "searchBar (state_of (toggleSearchBar w)) =
     (case searchBar w of
        None \<Rightarrow> None
      | Some d \<Rightarrow> if getUserRoles w = Inr True then Some ''none'' else Some d)"
  by (auto simp: toggleSearchBar_def split: option.splits sum.splits)

lemma setDefaultApp_frame:
  "style (state_of (setDefaultApp w)) = style w"
  "themeData (state_of (setDefaultApp w)) = themeData w"
  "user_roles (state_of (setDefaultApp w)) = user_roles w"
  "sidebarContainer (state_of (setDefaultApp w)) = sidebarContainer w"
  "searchBar (state_of (setDefaultApp w)) = searchBar w"
  "storage (state_of (setDefaultApp w)) = storage w"
  "fetches (state_of (setDefaultApp w)) = fetches w"
  by (simp_all add: setDefaultApp_def split: switcher.splits)

lemma showLoginBox_frame:
  "style (showLoginBox w) = style w"
  "themeData (showLoginBox w) = themeData w"
  "user_roles (showLoginBox w) = user_roles w"
  "sidebarContainer (showLoginBox w) = sidebarContainer w"
  "searchBar (showLoginBox w) = searchBar w"
  "storage (showLoginBox w) = storage w"
  "fetches (showLoginBox w) = fetches w"
  by (simp_all add: showLoginBox_def split: option.splits)

lemma applyTheme_after_css: "applyTheme w = and_then (setCSSVariables w) after_css"
  unfolding applyTheme_def after_css_def after_sidebar_def after_search_def ..

lemma after_search_frame:
  "style (state_of (after_search w)) = style w"
  "themeData (state_of (after_search w)) = themeData w"
  "user_roles (state_of (after_search w)) = user_roles w"
  "sidebarContainer (state_of (after_search w)) = sidebarContainer w"
  "searchBar (state_of (after_search w)) = searchBar w"
  "storage (state_of (after_search w)) = storage w"
  "fetches (state_of (after_search w)) = fetches w"
  unfolding after_search_def
  by (simp_all add: and_then_frame showLoginBox_frame setDefaultApp_frame)

lemma after_sidebar_frame:
  "style (state_of (after_sidebar w)) = style w"
  "themeData (state_of (after_sidebar w)) = themeData w"
  "user_roles (state_of (after_sidebar w)) = user_roles w"
  "sidebarContainer (state_of (after_sidebar w)) = sidebarContainer w"
  "storage (state_of (after_sidebar w)) = storage w"
  "fetches (state_of (after_sidebar w)) = fetches w"
  unfolding after_sidebar_def
  by (simp_all add: and_then_frame after_search_frame toggleSearchBar_frame)

lemma after_sidebar_searchBar:
  "searchBar (state_of (after_sidebar w)) = searchBar (state_of (toggleSearchBar w))"
  unfolding after_sidebar_def by (simp add: and_then_frame after_search_frame)

lemma after_css_frame:
  "style (state_of (after_css w)) = style w"
  "themeData (state_of (after_css w)) = themeData w"
  "user_roles (state_of (after_css w)) = user_roles w"
  "storage (state_of (after_css w)) = storage w"
  "fetches (state_of (after_css w)) = fetches w"
  unfolding after_css_def
  by (simp_all add: and_then_frame after_sidebar_frame toggleSidebar_frame)

lemma after_css_sidebar:
  "sidebarContainer (state_of (after_css w)) = sidebarContainer (state_of (toggleSidebar w))"
  unfolding after_css_def by (simp add: and_then_frame after_sidebar_frame)

lemma after_css_searchBar:
  "searchBar (state_of (after_css w)) =
     (case searchBar w of
        None \<Rightarrow> None
      | Some d \<Rightarrow> if sidebarContainer w \<noteq> None \<and> themeData w = JNull then Some d
                  else if getUserRoles w = Inr True then Some ''none'' else Some d)"
proof (cases "toggleSidebar w")
  case (Done w2)
  then have "user_roles w2 = user_roles w" "themeData w2 = themeData w" "searchBar w2 = searchBar w"
    using toggleSidebar_frame [of w] by simp_all
  moreover from Done have "\<not> (sidebarContainer w \<noteq> None \<and> themeData w = JNull)"
    by (auto simp: toggleSidebar_def split: option.splits if_splits)
  ultimately show ?thesis
    using Done
    by (auto simp: after_css_def after_sidebar_searchBar toggleSearchBar_searchBar
        getUserRoles_cong [of w2 w] split: option.splits)
next
  case (Thrown e w2)
  then have "sidebarContainer w \<noteq> None \<and> themeData w = JNull \<and> w2 = w"
    by (auto simp: toggleSidebar_def split: option.splits if_splits)
  then show ?thesis
    using Thrown by (auto simp: after_css_def split: option.splits)
qed

lemma applyTheme_frame:
  "themeData (state_of (applyTheme w)) = themeData w"
  "user_roles (state_of (applyTheme w)) = user_roles w"
  "storage (state_of (applyTheme w)) = storage w"
  "fetches (state_of (applyTheme w)) = fetches w"
  unfolding applyTheme_after_css
  by (simp_all add: and_then_frame after_css_frame setCSSVariables_frame)

lemma applyTheme_style:
  "style (state_of (applyTheme w)) = set_props (applied_props (themeData w)) (style w)"
  unfolding applyTheme_after_css
  by (simp add: and_then_frame after_css_frame setCSSVariables_style)

lemma applyTheme_sidebar:
  "sidebarContainer (state_of (applyTheme w)) =
     (case sidebarContainer w of
        None \<Rightarrow> None
      | Some b \<Rightarrow> if themeData w = JNull then Some b
                  else Some (fld (themeData w) ''hide_side_bar'' = Some (JNum 0)))"
proof (cases "setCSSVariables w")
  case (Done w1)
  then show ?thesis
    using setCSSVariables_frame(1,2) [of w]
    by (auto simp: applyTheme_after_css after_css_sidebar toggleSidebar_sidebar
        split: option.splits)
next
  case (Thrown e w1)
  then have "themeData w = JNull"
    using setCSSVariables_thrown [of w] by (auto split: if_splits)
  then show ?thesis
    using Thrown setCSSVariables_frame(2) [of w]
    by (simp add: applyTheme_after_css split: option.splits)
qed

lemma applyTheme_searchBar:
  "searchBar (state_of (applyTheme w)) =
     (case searchBar w of
        None \<Rightarrow> None
      | Some d \<Rightarrow> if themeData w = JNull then Some d
                  else if getUserRoles w = Inr True then Some ''none'' else Some d)"
proof (cases "setCSSVariables w")
  case (Done w1)
  then have nn: "themeData w \<noteq> JNull"
    using setCSSVariables_thrown [of w] by (auto split: if_splits)
  from Done have "user_roles w1 = user_roles w" "themeData w1 = themeData w" "searchBar w1 = searchBar w"
    using setCSSVariables_frame [of w] by simp_all
  then show ?thesis
    using Done nn
    by (auto simp: applyTheme_after_css after_css_searchBar getUserRoles_cong [of w1 w]
        split: option.splits)
next
  case (Thrown e w1)
  then have "themeData w = JNull"
    using setCSSVariables_thrown [of w] by (auto split: if_splits)
  then show ?thesis
    using Thrown setCSSVariables_frame(3) [of w]
    by (simp add: applyTheme_after_css split: option.splits)
qed

lemma applyTheme_style_at:
  "style (state_of (applyTheme w)) k =
     (case last_set (applied_props (themeData w)) k of None \<Rightarrow> style w k | Some v \<Rightarrow> v)"
  by (simp add: applyTheme_style set_props_last_set)

lemma applyTheme_returns:
  assumes "themeData w \<noteq> JNull" and "getUserRoles w = Inr b"
  shows "thrown (applyTheme w) = None"
proof -
  obtain w1 where w1: "setCSSVariables w = Done w1"
    using assms(1) by (simp add: setCSSVariables_def Let_def)
  have f1: "themeData w1 = themeData w" "user_roles w1 = user_roles w"
    using w1 setCSSVariables_frame [of w] by simp_all
  have "\<exists>w2. toggleSidebar w1 = Done w2"
    using assms(1) f1 by (simp add: toggleSidebar_def split: option.splits)
  then obtain w2 where w2: "toggleSidebar w1 = Done w2" ..
  have f2: "themeData w2 = themeData w" "user_roles w2 = user_roles w"
    using w2 f1 toggleSidebar_frame [of w1] by simp_all
  have "getUserRoles w2 = Inr b"
    using assms(2) f2 getUserRoles_cong [of w2 w] by simp
  then have "\<exists>w3. toggleSearchBar w2 = Done w3"
    by (simp add: toggleSearchBar_def split: option.splits)
  then obtain w3 where w3: "toggleSearchBar w2 = Done w3" ..
  have f3: "themeData w3 = themeData w"
    using w3 f2 toggleSearchBar_frame [of w2] by simp
  have "\<exists>w4. setDefaultApp w3 = Done w4"
    using assms(1) f3 by (simp add: setDefaultApp_def split: switcher.splits)
  then obtain w4 where w4: "setDefaultApp w3 = Done w4" ..
  show ?thesis
    by (simp add: applyTheme_def w1 w2 w3 w4)
qed

lemma showLoginBoxFallback_frame:
  "storage (showLoginBoxFallback w) = storage w"
  "fetches (showLoginBoxFallback w) = fetches w"
  "themeData (showLoginBoxFallback w) = themeData w"
  by (simp_all add: showLoginBoxFallback_def split: option.splits)

lemma applyCachedTheme_frame:
  "storage (state_of (applyCachedTheme w)) = storage w"
  "fetches (state_of (applyCachedTheme w)) = fetches w"
  by (simp_all add: applyCachedTheme_def applyTheme_frame showLoginBoxFallback_frame
      split: option.splits)

section \<open>What a load does to the cache\<close>

lemma loadTheme_try_throws_iff:
  "thrown (loadTheme_try t r w) \<noteq> None \<longleftrightarrow> fetch_fails r"
  by (cases r rule: fetch_fails.cases)
     (auto simp: loadTheme_try_def Let_def split: option.splits)

lemma loadTheme_try_failure_state:
  "fetch_fails r \<Longrightarrow> storage (state_of (loadTheme_try t r w)) = storage w
      \<and> fetches (state_of (loadTheme_try t r w)) = Suc (fetches w)"
  by (cases r rule: fetch_fails.cases)
     (auto simp: loadTheme_try_def Let_def split: option.splits)

lemma loadTheme_fetches: "fetches (state_of (loadTheme t r w)) = Suc (fetches w)"
  by (auto simp: loadTheme_def loadTheme_try_def Let_def setCachedTheme_def getCachedTheme_def
      split: fetch_result.splits option.splits)

lemma isCacheValid_cong: "storage w' = storage w \<Longrightarrow> isCacheValid now w' = isCacheValid now w"
  by (simp add: isCacheValid_def getCachedTheme_def)

lemma init_try_no_fetch:
  assumes "isCacheValid now w"
  shows "fetches (state_of (init_try now t r w)) = fetches w"
proof (cases "applyCachedTheme w")
  case (Done w1)
  then have w1: "storage w1 = storage w" "fetches w1 = fetches w"
    using applyCachedTheme_frame [of w] by simp_all
  then have "isCacheValid now w1"
    using assms isCacheValid_cong by blast
  then show ?thesis
    using Done w1
    by (simp add: init_try_def loadThemeIfNeeded_def and_then_frame setupEventListeners_def
        applyTheme_frame)
next
  case (Thrown e w1)
  then show ?thesis
    using applyCachedTheme_frame(2) [of w] by (simp add: init_try_def)
qed

lemma init_no_fetch:
  assumes "isCacheValid now w"
  shows "fetches (state_of (init now t r w)) = fetches w"
proof (cases "init_try now t r w")
  case (Done w')
  then show ?thesis
    using init_try_no_fetch [OF assms, of t r] by (simp add: init_def)
next
  case (Thrown e w')
  then have "fetches w' = fetches w"
    using init_try_no_fetch [OF assms, of t r] by simp
  then show ?thesis
    using Thrown
    by (simp add: init_def and_then_frame showLoginBoxFallback_frame applyTheme_frame)
qed

lemma init_rest_fetches:
  "fetches (state_of (and_then (if truthy (Some (themeData w2)) then applyTheme w2 else Done w2)
      (\<lambda>w3. Done (setupEventListeners w3)))) = fetches w2"
  by (simp add: and_then_frame setupEventListeners_def applyTheme_frame)

lemma init_fetches: "fetches (state_of (init now t r w)) = fetches (state_of (init_try now t r w))"
proof (cases "init_try now t r w")
  case (Done w')
  then show ?thesis by (simp add: init_def)
next
  case (Thrown e w')
  then show ?thesis
    by (simp add: init_def and_then_frame showLoginBoxFallback_frame applyTheme_frame)
qed

lemma init_fetches_invalid:
  assumes "\<not> isCacheValid now w" and "thrown (applyCachedTheme w) = None"
  shows "fetches (state_of (init now t r w)) = Suc (fetches w)"
proof -
  obtain w1 where w1: "applyCachedTheme w = Done w1"
    using assms(2) by (cases "applyCachedTheme w") simp_all
  then have s: "storage w1 = storage w" "fetches w1 = fetches w"
    using applyCachedTheme_frame [of w] by simp_all
  then have inv: "\<not> isCacheValid now w1"
    using assms(1) isCacheValid_cong by blast
  have "fetches (state_of (init_try now t r w)) = fetches (state_of (loadTheme t r w1))"
    unfolding init_try_def w1 and_then.simps
    using inv by (simp add: loadThemeIfNeeded_def and_then_frame init_rest_fetches)
  then show ?thesis
    by (simp add: init_fetches loadTheme_fetches s)
qed

section \<open>Startup at a null theme state\<close>

text \<open>
  C1 (what the code does at a null theme state). With \<^verbatim>\<open>this.themeData\<close> null,
  \<^verbatim>\<open>applyTheme\<close> throws a TypeError: \<^verbatim>\<open>setCSSVariables\<close> clears, sets the defaults and
  then reads a field of null. The startup with no cache entry and a rejected fetch
  therefore ends with that TypeError thrown from the catch block of \<^verbatim>\<open>init\<close>: the
  listeners are not installed and the catch block's own login box fallback is not
  reached; the default properties are set, and the only pending timer is the one that
  \<^verbatim>\<open>applyCachedTheme\<close> started, which makes the login box visible when it runs.
\<close>

theorem applyTheme_null_throws:
  "thrown (applyTheme (w\<lparr>themeData := JNull\<rparr>)) = Some TypeError
   \<and> style (state_of (applyTheme (w\<lparr>themeData := JNull\<rparr>))) ''--login-box-position'' = ''static''
   \<and> thrown (init now t FetchRejected (w\<lparr>themeData := JNull, storage := None\<rparr>)) = Some TypeError
   \<and> \<not> listeners (state_of (init now t FetchRejected (fresh_page)))
   \<and> timers (state_of (init now t FetchRejected (fresh_page))) = [100]
   \<and> loginBox (run_timers (state_of (init now t FetchRejected (fresh_page)))) = Some True"
proof -
  have a: "applyTheme v = Thrown TypeError (setDefaultCSSVariables (clearCSSVariables v))"
    if "themeData v = JNull" for v
    using that by (simp add: applyTheme_def setCSSVariables_def Let_def)
  have b: "init_try now t FetchRejected v =
            Thrown FetchFailed ((showLoginBoxFallback v)\<lparr>fetches := Suc (fetches (showLoginBoxFallback v))\<rparr>)"
    if "storage v = None" for v
  proof -
    have "storage (showLoginBoxFallback v) = None"
      using that by (simp add: showLoginBoxFallback_def split: option.splits)
    then show ?thesis
      using that
      by (simp add: init_try_def applyCachedTheme_def getCachedTheme_def loadThemeIfNeeded_def
          isCacheValid_def loadTheme_def loadTheme_try_def)
  qed
  have c: "themeData (showLoginBoxFallback v) = themeData v" for v
    by (simp add: showLoginBoxFallback_def split: option.splits)
  have 1: "thrown (applyTheme (w\<lparr>themeData := JNull\<rparr>)) = Some TypeError"
    by (simp add: a)
  have 2: "style (state_of (applyTheme (w\<lparr>themeData := JNull\<rparr>))) ''--login-box-position'' = ''static''"
    by (simp add: applyTheme_style_at applied_props_def default_props_def)
  have 3: "thrown (init now t FetchRejected (w\<lparr>themeData := JNull, storage := None\<rparr>)) = Some TypeError"
    by (simp add: init_def b a c)
  have 4: "init now t FetchRejected fresh_page =
        Thrown TypeError (setDefaultCSSVariables (clearCSSVariables
          ((showLoginBoxFallback fresh_page)\<lparr>fetches := Suc (fetches (showLoginBoxFallback fresh_page))\<rparr>)))"
    by (simp add: init_def b a c fresh_page_def)
  have 5: "\<not> listeners (state_of (init now t FetchRejected fresh_page))"
      "timers (state_of (init now t FetchRejected fresh_page)) = [100]"
      "loginBox (run_timers (state_of (init now t FetchRejected fresh_page))) = Some True"
    unfolding 4
    by (simp_all add: setDefaultCSSVariables_def clearCSSVariables_def showLoginBoxFallback_def
        run_timers_def fresh_page_def)
  show ?thesis using 1 2 3 5 by simp
qed

section \<open>The role match\<close>

lemma some_role_iff:
  "\<forall>e\<in>set es. e \<noteq> JNull \<Longrightarrow>
   some_role es role = Inr (\<exists>e\<in>set es. fld e ''role'' = Some (JStr role))"
  by (induction es) auto

lemma some_user_role_iff:
  "\<forall>e\<in>set es. e \<noteq> JNull \<Longrightarrow>
   some_user_role roles (JArr es) = Inr (\<exists>r\<in>set roles. \<exists>e\<in>set es. fld e ''role'' = Some (JStr r))"
  by (induction roles) (auto simp: some_role_iff)

text \<open>
  C2. \<^verbatim>\<open>getUserRoles\<close> returns false when the user's role list is absent, or the theme
  state is null, or \<^verbatim>\<open>hide_search\<close> is absent (or otherwise falsy). When \<^verbatim>\<open>hide_search\<close>
  is an array of records: for a user holding Administrator it returns true exactly when
  some entry has the role Administrator, whatever the user's other roles; for any other
  user it returns true exactly when some role of the user is the role of some entry.
\<close>

theorem getUserRoles_spec:
  "(user_roles w = None \<or> themeData w = JNull \<or> \<not> truthy (fld (themeData w) ''hide_search'')
      \<longrightarrow> getUserRoles w = Inr False)
   \<and> (user_roles w = Some roles \<and> fld (themeData w) ''hide_search'' = Some (JArr es)
        \<and> (\<forall>e\<in>set es. e \<noteq> JNull)
      \<longrightarrow> getUserRoles w =
            Inr (if ''Administrator'' \<in> set roles
                 then \<exists>e\<in>set es. fld e ''role'' = Some (JStr ''Administrator'')
                 else \<exists>r\<in>set roles. \<exists>e\<in>set es. fld e ''role'' = Some (JStr r)))"
  by (auto simp: getUserRoles_def some_role_iff some_user_role_iff split: option.splits)

theorem getUserRoles_spec_witness:
  "getUserRoles (fresh_page\<lparr>themeData := JObj [(''hide_search'', JArr [JObj [(''role'', JStr ''Manager'')]])],
                            user_roles := Some [''Administrator'']\<rparr>) = Inr False
   \<and> getUserRoles (fresh_page\<lparr>themeData := JObj [(''hide_search'', JArr [JObj [(''role'', JStr ''Administrator'')]])],
                            user_roles := Some [''Administrator'']\<rparr>) = Inr True
   \<and> getUserRoles (fresh_page\<lparr>themeData := JObj [(''hide_search'', JArr [JObj [(''role'', JStr ''Sales User'')]])],
                            user_roles := Some [''Sales User'']\<rparr>) = Inr True
   \<and> getUserRoles (fresh_page\<lparr>themeData := JObj [(''hide_search'', JArr [JObj [(''role'', JStr ''Sales User'')]])],
                            user_roles := Some [''Sales User'', ''Administrator'']\<rparr>) = Inr False
   \<and> getUserRoles (fresh_page\<lparr>themeData := JObj [(''hide_search'', JArr [JObj [(''role'', JStr ''Sales User'')]])]\<rparr>)
       = Inr False
   \<and> getUserRoles (fresh_page\<lparr>themeData := JObj [], user_roles := Some [''Sales User'']\<rparr>) = Inr False"
  using
    getUserRoles_spec [of "fresh_page\<lparr>themeData := JObj [(''hide_search'', JArr [JObj [(''role'', JStr ''Manager'')]])],
                            user_roles := Some [''Administrator'']\<rparr>"
        "[''Administrator'']" "[JObj [(''role'', JStr ''Manager'')]]"]
    getUserRoles_spec [of "fresh_page\<lparr>themeData := JObj [(''hide_search'', JArr [JObj [(''role'', JStr ''Administrator'')]])],
                            user_roles := Some [''Administrator'']\<rparr>"
        "[''Administrator'']" "[JObj [(''role'', JStr ''Administrator'')]]"]
    getUserRoles_spec [of "fresh_page\<lparr>themeData := JObj [(''hide_search'', JArr [JObj [(''role'', JStr ''Sales User'')]])],
                            user_roles := Some [''Sales User'']\<rparr>"
        "[''Sales User'']" "[JObj [(''role'', JStr ''Sales User'')]]"]
    getUserRoles_spec [of "fresh_page\<lparr>themeData := JObj [(''hide_search'', JArr [JObj [(''role'', JStr ''Sales User'')]])],
                            user_roles := Some [''Sales User'', ''Administrator'']\<rparr>"
        "[''Sales User'', ''Administrator'']" "[JObj [(''role'', JStr ''Sales User'')]]"]
    getUserRoles_spec [of "fresh_page\<lparr>themeData := JObj [(''hide_search'', JArr [JObj [(''role'', JStr ''Sales User'')]])]\<rparr>"]
    getUserRoles_spec [of "fresh_page\<lparr>themeData := JObj [], user_roles := Some [''Sales User'']\<rparr>"]
  by (simp add: fresh_page_def)

section \<open>Properties outside the clear list\<close>

lemma theme_sidebar_bg:
  "last_set (theme_props theme) ''--sidebar-bg'' =
     (if truthy (fld theme ''sidebar_background_color'')
      then Some (css_arg (fld theme ''sidebar_background_color''))
      else None)"
  by (simp add: theme_props_def props_other body_props_def)

lemma clear_sidebar_bg: "last_set (map (\<lambda>n. (n, [])) cssVariables) ''--sidebar-bg'' = None"
  by (simp add: cssVariables_def)

lemma applied_sidebar_bg:
  "theme \<noteq> JNull \<Longrightarrow> last_set (applied_props theme) ''--sidebar-bg'' =
     (if truthy (fld theme ''sidebar_background_color'')
      then Some (css_arg (fld theme ''sidebar_background_color''))
      else None)"
  by (simp add: applied_props_def theme_sidebar_bg clear_sidebar_bg default_props_def)

text \<open>
  C3 (what the code does). The list of \<^verbatim>\<open>clearCSSVariables\<close> does not hold
  \<^verbatim>\<open>--sidebar-bg\<close> (nor \<^verbatim>\<open>--sidebar-text-color\<close>, \<^verbatim>\<open>--content-text-color\<close>,
  \<^verbatim>\<open>--login-box-padding\<close>), which \<^verbatim>\<open>setCSSVariables\<close> sets. On a fresh page, applying a
  theme with a sidebar background colour and then the empty theme leaves
  \<^verbatim>\<open>--sidebar-bg\<close> at the first theme's colour, whereas the empty theme alone leaves it
  unset.
\<close>

theorem sidebar_bg_survives:
  "style (state_of (applyTheme
      ((state_of (applyTheme
          (fresh_page\<lparr>themeData := JObj [(''sidebar_background_color'', JStr ''#ff0000'')]\<rparr>)))
       \<lparr>themeData := JObj []\<rparr>))) ''--sidebar-bg'' = ''#ff0000''
   \<and> style (state_of (applyTheme (fresh_page\<lparr>themeData := JObj []\<rparr>))) ''--sidebar-bg'' = []"
  by (simp add: applyTheme_style_at applied_sidebar_bg fresh_page_def)

section \<open>Cache validity\<close>

text \<open>
  C4. When a cache entry exists, \<^verbatim>\<open>isCacheValid\<close> is exactly
  \<open>now - timestamp < 86400000\<close>; an entry whose age is exactly 86400000 ms is invalid;
  and when the cache is valid \<^verbatim>\<open>loadThemeIfNeeded\<close> returns with the page unchanged, the
  count of \<^verbatim>\<open>fetch\<close> calls included.
\<close>

theorem cache_validity:
  "(getCachedTheme w = Some e \<longrightarrow> isCacheValid now w = (now - timestamp e < 86400000))
   \<and> (getCachedTheme w = Some e \<and> now - timestamp e = 86400000 \<longrightarrow> \<not> isCacheValid now w)
   \<and> (isCacheValid now w \<longrightarrow>
        loadThemeIfNeeded now t r w = Done w
        \<and> fetches (state_of (loadThemeIfNeeded now t r w)) = fetches w)"
  by (auto simp: isCacheValid_def cacheTimeout_def loadThemeIfNeeded_def)

theorem cache_validity_witness:
  "getCachedTheme (fresh_page\<lparr>storage := Some \<lparr>data = JObj [], timestamp = 1000, version = 1\<rparr>\<rparr>)
     = Some \<lparr>data = JObj [], timestamp = 1000, version = 1\<rparr>
   \<and> isCacheValid 86400999 (fresh_page\<lparr>storage := Some \<lparr>data = JObj [], timestamp = 1000, version = 1\<rparr>\<rparr>)
   \<and> \<not> isCacheValid 86401000 (fresh_page\<lparr>storage := Some \<lparr>data = JObj [], timestamp = 1000, version = 1\<rparr>\<rparr>)
   \<and> fetches (state_of (loadThemeIfNeeded 86400999 86400999 FetchRejected
         (fresh_page\<lparr>storage := Some \<lparr>data = JObj [], timestamp = 1000, version = 1\<rparr>\<rparr>))) = 0"
  using cache_validity [of "fresh_page\<lparr>storage := Some \<lparr>data = JObj [], timestamp = 1000, version = 1\<rparr>\<rparr>"
      "\<lparr>data = JObj [], timestamp = 1000, version = 1\<rparr>" 86400999 86400999 FetchRejected]
    cache_validity [of "fresh_page\<lparr>storage := Some \<lparr>data = JObj [], timestamp = 1000, version = 1\<rparr>\<rparr>"
      "\<lparr>data = JObj [], timestamp = 1000, version = 1\<rparr>" 86401000 0 FetchRejected]
  by (simp add: getCachedTheme_def fresh_page_def)

section \<open>A failed load\<close>


lemma truthy_unwrap: "truthy (Some (unwrap d)) = truthy (Some d)"
  by (cases d) (auto simp: unwrap_def split: option.splits)




text \<open>
  C10. When the try block of \<^verbatim>\<open>loadTheme\<close> fails (rejected fetch, non-success status,
  unparsable body or empty payload), the storage slot after \<^verbatim>\<open>loadTheme\<close> is the slot
  before it. An entry that was invalid at the time of the failed load is therefore
  invalid at any later time on any page holding that slot: there \<^verbatim>\<open>loadThemeIfNeeded\<close>
  calls \<^verbatim>\<open>fetch\<close>, and so does a whole \<^verbatim>\<open>init\<close> whose \<^verbatim>\<open>applyCachedTheme\<close> returns.
\<close>

theorem loadTheme_failure_keeps_cache:
  assumes "fetch_fails r"
  shows "storage (state_of (loadTheme t r w)) = storage w
       \<and> (\<not> isCacheValid now w \<and> now \<le> now' \<and> storage w' = storage (state_of (loadTheme t r w)) \<longrightarrow>
            \<not> isCacheValid now' w'
            \<and> fetches (state_of (loadThemeIfNeeded now' t' r' w')) = Suc (fetches w')
            \<and> (thrown (applyCachedTheme w') = None \<longrightarrow>
                  fetches (state_of (init now' t' r' w')) = Suc (fetches w')))"
proof -
  have st: "storage (state_of (loadTheme t r w)) = storage w"
    using assms
    by (cases r rule: fetch_fails.cases)
       (auto simp: loadTheme_def loadTheme_try_def Let_def getCachedTheme_def split: option.splits)
  have stale: "\<not> isCacheValid now' w'"
    if "\<not> isCacheValid now w" "now \<le> now'" "storage w' = storage (state_of (loadTheme t r w))"
    using that st by (auto simp: isCacheValid_def getCachedTheme_def split: option.splits)
  show ?thesis
    using st stale by (auto simp: loadThemeIfNeeded_def loadTheme_fetches init_fetches_invalid)
qed

theorem loadTheme_failure_keeps_cache_witness:
  "fetch_fails (Response 500 None)
   \<and> storage (state_of (loadTheme 90000000 (Response 500 None)
        (fresh_page\<lparr>storage := Some \<lparr>data = JObj [], timestamp = 0, version = 1\<rparr>\<rparr>)))
       = Some \<lparr>data = JObj [], timestamp = 0, version = 1\<rparr>
   \<and> \<not> isCacheValid 90000000 (fresh_page\<lparr>storage := Some \<lparr>data = JObj [], timestamp = 0, version = 1\<rparr>\<rparr>)
   \<and> thrown (applyCachedTheme
        (fresh_page\<lparr>storage := Some \<lparr>data = JObj [], timestamp = 0, version = 1\<rparr>\<rparr>)) = None
   \<and> fetches (state_of (init 90000001 90000002 FetchRejected
        (fresh_page\<lparr>storage := Some \<lparr>data = JObj [], timestamp = 0, version = 1\<rparr>\<rparr>))) = 1"
proof -
  let ?w = "fresh_page\<lparr>storage := Some \<lparr>data = JObj [], timestamp = 0, version = 1\<rparr>\<rparr>"
  have h: "fetch_fails (Response 500 None)"
    by simp
  have s: "\<not> isCacheValid 90000000 ?w"
    by (simp add: isCacheValid_def getCachedTheme_def cacheTimeout_def fresh_page_def)
  have st: "storage ?w = Some \<lparr>data = JObj [], timestamp = 0, version = 1\<rparr>" "fetches ?w = 0"
    by (simp_all add: fresh_page_def)
  have "getUserRoles (?w\<lparr>themeData := JObj []\<rparr>) = Inr False"
    by (simp add: getUserRoles_def fresh_page_def)
  then have "thrown (applyTheme (?w\<lparr>themeData := JObj []\<rparr>)) = None"
    by (rule applyTheme_returns [rotated]) simp
  then have a: "thrown (applyCachedTheme ?w) = None"
    by (simp add: applyCachedTheme_def getCachedTheme_def st)
  show ?thesis
    using h s st a
      loadTheme_failure_keeps_cache [OF h, of 90000000 ?w 90000000 90000001 ?w 90000002 FetchRejected]
    by simp
qed

section \<open>Idempotence\<close>

lemma theme_navbar_bg:
  "last_set (theme_props theme) ''--navbar-bg'' =
     (if truthy (fld theme ''navbar_color'') then Some (css_arg (fld theme ''navbar_color'')) else None)"
  by (simp add: theme_props_def props_other navbar_props_def)

text \<open>
  C6. Applying the theme state twice in succession leaves the style properties of the
  root, the sidebar container's expanded class and the search bar's inline display
  exactly as applying it once does.
\<close>

theorem applyTheme_idempotent:
  "style (state_of (applyTheme (state_of (applyTheme w)))) = style (state_of (applyTheme w))
   \<and> sidebarContainer (state_of (applyTheme (state_of (applyTheme w))))
       = sidebarContainer (state_of (applyTheme w))
   \<and> searchBar (state_of (applyTheme (state_of (applyTheme w))))
       = searchBar (state_of (applyTheme w))"
proof -
  define w1 where "w1 = state_of (applyTheme w)"
  have t: "themeData w1 = themeData w" and u: "user_roles w1 = user_roles w"
    by (simp_all add: w1_def applyTheme_frame)
  have g: "getUserRoles w1 = getUserRoles w"
    using u t by (rule getUserRoles_cong)
  have s1: "style w1 = set_props (applied_props (themeData w)) (style w)"
    by (simp add: w1_def applyTheme_style)
  have "style (state_of (applyTheme w1)) = set_props (applied_props (themeData w1)) (style w1)"
    by (rule applyTheme_style)
  then have "style (state_of (applyTheme w1)) = style w1"
    by (simp add: t s1 set_props_idem)
  moreover have "sidebarContainer (state_of (applyTheme w1)) = sidebarContainer w1"
    using applyTheme_sidebar [of w1] applyTheme_sidebar [of w] t
    by (auto simp: w1_def [symmetric] split: option.splits)
  moreover have "searchBar (state_of (applyTheme w1)) = searchBar w1"
    using applyTheme_searchBar [of w1] applyTheme_searchBar [of w] t g
    by (auto simp: w1_def [symmetric] split: option.splits if_splits)
  ultimately show ?thesis by (simp add: w1_def)
qed

theorem applyTheme_idempotent_witness:
  "style (state_of (applyTheme (state_of (applyTheme
       (fresh_page\<lparr>themeData := JObj [(''navbar_color'', JStr ''#123456''), (''hide_side_bar'', JNum 0)]\<rparr>)))))
     ''--navbar-bg'' = ''#123456''
   \<and> sidebarContainer (state_of (applyTheme (state_of (applyTheme
       (fresh_page\<lparr>themeData := JObj [(''navbar_color'', JStr ''#123456''), (''hide_side_bar'', JNum 0)]\<rparr>)))))
     = Some True"
proof -
  let ?w = "fresh_page\<lparr>themeData := JObj [(''navbar_color'', JStr ''#123456''), (''hide_side_bar'', JNum 0)]\<rparr>"
  have 1: "style (state_of (applyTheme ?w)) ''--navbar-bg'' = ''#123456''"
    by (simp add: applyTheme_style_at applied_props_def theme_navbar_bg)
  have 2: "sidebarContainer (state_of (applyTheme ?w)) = Some True"
    by (simp add: applyTheme_sidebar fresh_page_def)
  show ?thesis
    using 1 2 applyTheme_idempotent [of ?w] by simp
qed

section \<open>The cache round trip\<close>

text \<open>
  C7. When the storage accepts the write, \<^verbatim>\<open>getCachedTheme\<close> after
  \<^verbatim>\<open>setCachedTheme\<close> at time \<open>t\<close> returns the entry whose data is the theme written, with
  timestamp \<open>t\<close>. On any page holding that entry, at a time \<open>now\<close> with
  \<open>now - t < cacheTimeout\<close>, \<^verbatim>\<open>loadThemeIfNeeded\<close> returns with the page unchanged and
  the whole of \<^verbatim>\<open>init\<close> makes no call of \<^verbatim>\<open>fetch\<close>.
\<close>

theorem cache_round_trip:
  assumes "storage_writable w"
  shows "getCachedTheme (setCachedTheme t theme w) = Some \<lparr>data = theme, timestamp = t, version = 1\<rparr>
       \<and> (now - t < cacheTimeout \<and> storage w' = storage (setCachedTheme t theme w) \<longrightarrow>
            loadThemeIfNeeded now t' r w' = Done w'
            \<and> fetches (state_of (init now t' r w')) = fetches w')"
proof -
  have g: "getCachedTheme (setCachedTheme t theme w) = Some \<lparr>data = theme, timestamp = t, version = 1\<rparr>"
    using assms by (simp add: getCachedTheme_def setCachedTheme_def)
  have "isCacheValid now w'"
    if "now - t < cacheTimeout" "storage w' = storage (setCachedTheme t theme w)"
    using that g by (simp add: isCacheValid_def getCachedTheme_def)
  then show ?thesis
    using g by (auto simp: loadThemeIfNeeded_def init_no_fetch)
qed

theorem cache_round_trip_witness:
  "storage_writable fresh_page
   \<and> getCachedTheme (setCachedTheme 1000 (JObj [(''navbar_color'', JStr ''#123456'')]) fresh_page)
       = Some \<lparr>data = JObj [(''navbar_color'', JStr ''#123456'')], timestamp = 1000, version = 1\<rparr>
   \<and> fetches (state_of (init 5000 6000 FetchRejected
        (fresh_page\<lparr>storage := Some \<lparr>data = JObj [(''navbar_color'', JStr ''#123456'')],
                                        timestamp = 1000, version = 1\<rparr>\<rparr>))) = 0"
proof -
  have h: "storage_writable fresh_page"
    by (simp add: fresh_page_def)
  have s: "storage (fresh_page\<lparr>storage := Some \<lparr>data = JObj [(''navbar_color'', JStr ''#123456'')],
                                        timestamp = 1000, version = 1\<rparr>\<rparr>)
           = storage (setCachedTheme 1000 (JObj [(''navbar_color'', JStr ''#123456'')]) fresh_page)"
    by (simp add: setCachedTheme_def fresh_page_def)
  have f: "fetches (fresh_page\<lparr>storage := Some \<lparr>data = JObj [(''navbar_color'', JStr ''#123456'')],
                                        timestamp = 1000, version = 1\<rparr>\<rparr>) = 0"
    by (simp add: fresh_page_def)
  show ?thesis
    using h s f cache_round_trip [OF h, of 1000 "JObj [(''navbar_color'', JStr ''#123456'')]" 5000
        "fresh_page\<lparr>storage := Some \<lparr>data = JObj [(''navbar_color'', JStr ''#123456'')],
                                        timestamp = 1000, version = 1\<rparr>\<rparr>" 6000 FetchRejected]
    by (simp add: cacheTimeout_def)
qed

section \<open>Visibility fields\<close>

lemma theme_hide_help:
  "last_set (theme_props theme) ''--hide-help'' =
     (if fld theme ''hide_help_button'' \<noteq> None
      then Some (if truthy (fld theme ''hide_help_button'') then ''none'' else ''block'')
      else None)"
  by (simp add: theme_props_def props_other navbar_props_def)

lemma theme_hide_app_switcher:
  "last_set (theme_props theme) ''--hide-app-switcher'' =
     (if fld theme ''hide_app_switcher'' \<noteq> None
      then Some (if truthy (fld theme ''hide_app_switcher'') then ''none'' else ''block'')
      else None)"
  by (simp add: theme_props_def props_other navbar_props_def)

lemma theme_pointer_events:
  "last_set (theme_props theme) ''--app-switcher-pointer-events'' =
     (if fld theme ''hide_app_switcher'' \<noteq> None
      then Some (if truthy (fld theme ''hide_app_switcher'') then ''none'' else ''auto'')
      else None)"
  by (simp add: theme_props_def props_other navbar_props_def)

lemma theme_hide_like_comment:
  "last_set (theme_props theme) ''--hide-like-comment'' =
     (if fld theme ''table_hide_like_comment_section'' \<noteq> None
      then Some (if truthy (fld theme ''table_hide_like_comment_section'') then ''none'' else ''block'')
      else None)"
  by (simp add: theme_props_def props_other table_props_def)

lemma theme_sidebar_expanded:
  "last_set (theme_props theme) ''--sidebar-expanded'' =
     (if fld theme ''hide_side_bar'' \<noteq> None
      then Some (if fld theme ''hide_side_bar'' = Some (JNum 0) then ''expanded'' else [])
      else None)"
  by (simp add: theme_props_def props_other widget_props_def)

text \<open>
  C8 (as the code has it). After \<^verbatim>\<open>applyTheme\<close>: when \<^verbatim>\<open>hide_help_button\<close> is present,
  \<^verbatim>\<open>--hide-help\<close> is none for a truthy value and block for a falsy one; when
  \<^verbatim>\<open>hide_app_switcher\<close> is present, \<^verbatim>\<open>--hide-app-switcher\<close> is none or block and
  \<^verbatim>\<open>--app-switcher-pointer-events\<close> is none or auto in the same way; when
  \<^verbatim>\<open>table_hide_like_comment_section\<close> is present, \<^verbatim>\<open>--hide-like-comment\<close> is none or
  block in the same way; when \<^verbatim>\<open>hide_side_bar\<close> is present, \<^verbatim>\<open>--sidebar-expanded\<close> is
  expanded if the field is exactly the number 0 and is unset (the empty value) otherwise.
\<close>

theorem visibility_fields:
  "(fld (themeData w) ''hide_help_button'' \<noteq> None \<longrightarrow>
      style (state_of (applyTheme w)) ''--hide-help''
        = (if truthy (fld (themeData w) ''hide_help_button'') then ''none'' else ''block''))
   \<and> (fld (themeData w) ''hide_app_switcher'' \<noteq> None \<longrightarrow>
      style (state_of (applyTheme w)) ''--hide-app-switcher''
        = (if truthy (fld (themeData w) ''hide_app_switcher'') then ''none'' else ''block'')
      \<and> style (state_of (applyTheme w)) ''--app-switcher-pointer-events''
        = (if truthy (fld (themeData w) ''hide_app_switcher'') then ''none'' else ''auto''))
   \<and> (fld (themeData w) ''table_hide_like_comment_section'' \<noteq> None \<longrightarrow>
      style (state_of (applyTheme w)) ''--hide-like-comment''
        = (if truthy (fld (themeData w) ''table_hide_like_comment_section'') then ''none'' else ''block''))
   \<and> (fld (themeData w) ''hide_side_bar'' \<noteq> None \<longrightarrow>
      style (state_of (applyTheme w)) ''--sidebar-expanded''
        = (if fld (themeData w) ''hide_side_bar'' = Some (JNum 0) then ''expanded'' else []))"
proof (cases "themeData w = JNull")
  case True
  then show ?thesis by simp
next
  case False
  have a: "style (state_of (applyTheme w)) k =
      (case last_set (theme_props (themeData w)) k of
         Some v \<Rightarrow> v
       | None \<Rightarrow> (case last_set (map (\<lambda>n. (n, [])) cssVariables @ default_props) k of
                    None \<Rightarrow> style w k | Some v \<Rightarrow> v))" for k
    using False
    by (simp add: applyTheme_style_at applied_props_def split: option.splits)
  show ?thesis
    by (simp add: a theme_hide_help theme_hide_app_switcher theme_pointer_events
        theme_hide_like_comment theme_sidebar_expanded)
qed

theorem visibility_fields_witness:
  "fld (JObj [(''hide_help_button'', JNum 1), (''hide_side_bar'', JNum 0)]) ''hide_help_button'' \<noteq> None
   \<and> style (state_of (applyTheme (fresh_page
        \<lparr>themeData := JObj [(''hide_help_button'', JNum 1), (''hide_side_bar'', JNum 0)]\<rparr>)))
        ''--hide-help'' = ''none''
   \<and> style (state_of (applyTheme (fresh_page
        \<lparr>themeData := JObj [(''hide_help_button'', JNum 1), (''hide_side_bar'', JNum 0)]\<rparr>)))
        ''--sidebar-expanded'' = ''expanded''"
  using visibility_fields [of "fresh_page
        \<lparr>themeData := JObj [(''hide_help_button'', JNum 1), (''hide_side_bar'', JNum 0)]\<rparr>"]
  by simp

text \<open>
  C8 as stated fails for \<^verbatim>\<open>hide_side_bar\<close>: with the falsy value 0 its property is
  expanded, with the truthy value 1 it is unset; neither is none or block.
\<close>

theorem hide_side_bar_counterexample:
  "style (state_of (applyTheme (fresh_page\<lparr>themeData := JObj [(''hide_side_bar'', JNum 0)]\<rparr>)))
      ''--sidebar-expanded'' = ''expanded''
   \<and> style (state_of (applyTheme (fresh_page\<lparr>themeData := JObj [(''hide_side_bar'', JNum 0)]\<rparr>)))
      ''--sidebar-expanded'' \<notin> {''none'', ''block''}
   \<and> style (state_of (applyTheme (fresh_page\<lparr>themeData := JObj [(''hide_side_bar'', JNum 1)]\<rparr>)))
      ''--sidebar-expanded'' = []
   \<and> style (state_of (applyTheme (fresh_page\<lparr>themeData := JObj [(''hide_side_bar'', JNum 1)]\<rparr>)))
      ''--sidebar-expanded'' \<notin> {''none'', ''block''}"
  by (simp add: applyTheme_style_at applied_props_def theme_sidebar_expanded default_props_def)

section \<open>The search bar is only ever hidden\<close>

lemma toggleSearchBar_hidden:
  "searchBar w = Some ''none'' \<Longrightarrow> searchBar (state_of (toggleSearchBar w)) = Some ''none''"
  by (simp add: toggleSearchBar_searchBar)

lemma observer_run_hidden:
  "searchBar w = Some ''none'' \<Longrightarrow> searchBar (observer_run cs w) = Some ''none''"
proof (induction cs arbitrary: w)
  case Nil
  then show ?case by simp
next
  case (Cons c cs)
  have "searchBar (state_of (toggleSearchBar (w\<lparr>themeData := fst c, user_roles := snd c\<rparr>))) = Some ''none''"
    using Cons.prems by (intro toggleSearchBar_hidden) simp
  then show ?case
    by (simp add: Cons.IH)
qed

text \<open>
  C9. When the role match returns false, \<^verbatim>\<open>toggleSearchBar\<close> leaves the page unchanged.
  In every case the search bar's inline display afterwards is what it was or is none.
  Hence a search bar whose display is none keeps it through any run of observer
  callbacks, whatever the theme state and the roles have become before each of them,
  and through \<^verbatim>\<open>applyTheme\<close>.
\<close>

theorem toggleSearchBar_only_hides:
  "(getUserRoles w = Inr False \<longrightarrow> toggleSearchBar w = Done w)
   \<and> (searchBar (state_of (toggleSearchBar w)) = searchBar w
        \<or> searchBar (state_of (toggleSearchBar w)) = Some ''none'')
   \<and> (searchBar w = Some ''none'' \<longrightarrow>
        searchBar (observer_run cs w) = Some ''none''
        \<and> searchBar (state_of (applyTheme w)) = Some ''none'')"
proof -
  have "getUserRoles w = Inr False \<Longrightarrow> toggleSearchBar w = Done w"
    by (simp add: toggleSearchBar_def split: option.splits)
  moreover have "searchBar (state_of (toggleSearchBar w)) = searchBar w
        \<or> searchBar (state_of (toggleSearchBar w)) = Some ''none''"
    by (simp add: toggleSearchBar_searchBar split: option.splits)
  ultimately show ?thesis
    by (simp add: observer_run_hidden applyTheme_searchBar)
qed

theorem toggleSearchBar_only_hides_witness:
  "getUserRoles (fresh_page\<lparr>searchBar := Some ''none'', user_roles := Some [''Sales User'']\<rparr>) = Inr False
   \<and> toggleSearchBar (fresh_page\<lparr>searchBar := Some ''none'', user_roles := Some [''Sales User'']\<rparr>)
        = Done (fresh_page\<lparr>searchBar := Some ''none'', user_roles := Some [''Sales User'']\<rparr>)
   \<and> searchBar (observer_run [(JObj [], Some [''Sales User'']), (JNull, None)]
        (fresh_page\<lparr>searchBar := Some ''none'', user_roles := Some [''Sales User'']\<rparr>)) = Some ''none''"
proof -
  have h: "getUserRoles (fresh_page\<lparr>searchBar := Some ''none'', user_roles := Some [''Sales User'']\<rparr>) = Inr False"
    by (simp add: getUserRoles_def fresh_page_def)
  show ?thesis
    using h toggleSearchBar_only_hides
      [of "fresh_page\<lparr>searchBar := Some ''none'', user_roles := Some [''Sales User'']\<rparr>"
          "[(JObj [], Some [''Sales User'']), (JNull, None)]"]
    by simp
qed

end
